theory Spec2Isabelle
  imports Complex_Main
begin

section \<open>JavaScript numbers\<close>

text \<open>
  The calculators compute on JavaScript numbers. A finite number is modelled by the real
  it denotes, with exact arithmetic: the rounding of IEEE doubles and overflow to an
  infinity are outside this model, and zero carries no sign. A value that need not be
  finite (the quotient of a division, and what is computed from it) is a \<open>jsnum\<close>.
\<close>

datatype jsnum = Fin real | PosInf | NegInf | NaN

text \<open>\<open>a / b\<close> on finite operands: a zero divisor gives an infinity or NaN.\<close>

definition js_div :: "real \<Rightarrow> real \<Rightarrow> jsnum" where
  "js_div a b =
     (if b \<noteq> 0 then Fin (a / b)
      else if 0 < a then PosInf
      else if a < 0 then NegInf
      else NaN)"

text \<open>\<open>x > c\<close> against a finite \<open>c\<close>: every comparison with NaN is false.\<close>

fun js_gt :: "jsnum \<Rightarrow> real \<Rightarrow> bool" where
  "js_gt (Fin x) c = (c < x)"
| "js_gt PosInf c = True"
| "js_gt NegInf c = False"
| "js_gt NaN c = False"

fun js_sub :: "jsnum \<Rightarrow> jsnum \<Rightarrow> jsnum" where
  "js_sub NaN y = NaN"
| "js_sub x NaN = NaN"
| "js_sub (Fin a) (Fin b) = Fin (a - b)"
| "js_sub (Fin a) PosInf = NegInf"
| "js_sub (Fin a) NegInf = PosInf"
| "js_sub PosInf PosInf = NaN"
| "js_sub PosInf y = PosInf"
| "js_sub NegInf NegInf = NaN"
| "js_sub NegInf y = NegInf"

fun js_abs :: "jsnum \<Rightarrow> jsnum" where
  "js_abs (Fin a) = Fin \<bar>a\<bar>"
| "js_abs PosInf = PosInf"
| "js_abs NegInf = PosInf"
| "js_abs NaN = NaN"

fun js_mul :: "jsnum \<Rightarrow> jsnum \<Rightarrow> jsnum" where
  "js_mul NaN y = NaN"
| "js_mul x NaN = NaN"
| "js_mul (Fin a) (Fin b) = Fin (a * b)"
| "js_mul (Fin a) PosInf = (if a = 0 then NaN else if 0 < a then PosInf else NegInf)"
| "js_mul (Fin a) NegInf = (if a = 0 then NaN else if 0 < a then NegInf else PosInf)"
| "js_mul PosInf (Fin b) = (if b = 0 then NaN else if 0 < b then PosInf else NegInf)"
| "js_mul NegInf (Fin b) = (if b = 0 then NaN else if 0 < b then NegInf else PosInf)"
| "js_mul PosInf PosInf = PosInf"
| "js_mul PosInf NegInf = NegInf"
| "js_mul NegInf PosInf = NegInf"
| "js_mul NegInf NegInf = PosInf"

fun js_quot :: "jsnum \<Rightarrow> jsnum \<Rightarrow> jsnum" where
  "js_quot NaN y = NaN"
| "js_quot x NaN = NaN"
| "js_quot (Fin a) (Fin b) = js_div a b"
| "js_quot (Fin a) PosInf = Fin 0"
| "js_quot (Fin a) NegInf = Fin 0"
| "js_quot PosInf (Fin b) = (if 0 \<le> b then PosInf else NegInf)"
| "js_quot NegInf (Fin b) = (if 0 \<le> b then NegInf else PosInf)"
| "js_quot PosInf y = NaN"
| "js_quot NegInf y = NaN"

text \<open>
  \<open>x.toFixed(d)\<close> is a decimal string; it is modelled by the number the string denotes,
  which is also what \<open>parseFloat\<close> reads back. The digits are those of the integer \<open>n\<close>
  with \<open>n / 10^d\<close> nearest to \<open>\<bar>x\<bar>\<close>, the larger one on a tie; from \<open>10^21\<close> on the
  string is that of the number itself.
\<close>

definition toFixed :: "nat \<Rightarrow> real \<Rightarrow> real" where
  "toFixed d x =
     (if 10 ^ 21 \<le> \<bar>x\<bar> then x
      else if x < 0 then - (of_int \<lfloor>- x * 10 ^ d + 1 / 2\<rfloor> / 10 ^ d)
      else of_int \<lfloor>x * 10 ^ d + 1 / 2\<rfloor> / 10 ^ d)"

fun js_toFixed :: "nat \<Rightarrow> jsnum \<Rightarrow> jsnum" where
  "js_toFixed d (Fin x) = Fin (toFixed d x)"
| "js_toFixed d PosInf = PosInf"
| "js_toFixed d NegInf = NegInf"
| "js_toFixed d NaN = NaN"

section \<open>capacitor-model.js\<close>

record CapacitorModel =
  charge :: real
  maxCharge :: real
  balanceThreshold :: real
  dischargeRate :: real
  chargeRate :: real

text \<open>
  The constructor reads \<open>config?.pricing_model?.balance_threshold || 0.75\<close>: the argument
  is the configured threshold, \<open>None\<close> when the configuration has none; \<open>||\<close> also
  replaces a configured zero.
\<close>

definition new_CapacitorModel :: "real option \<Rightarrow> CapacitorModel" where
  "new_CapacitorModel balance_threshold =
     \<lparr> charge = 0.5,
       maxCharge = 1.0,
       balanceThreshold =
         (case balance_threshold of
            None \<Rightarrow> 0.75
          | Some t \<Rightarrow> if t = 0 then 0.75 else t),
       dischargeRate = 0.1,
       chargeRate = 0.05 \<rparr>"

definition getChargeStatus :: "CapacitorModel \<Rightarrow> string" where
  "getChargeStatus c =
     (if charge c > balanceThreshold c then ''high_charge''
      else if charge c < 1 - balanceThreshold c then ''low_charge''
      else ''balanced'')"

record price_impact =
  pi_type :: string
  pi_multiplier :: real
  pi_reason :: string
  pi_description :: string

definition getPriceImpact :: "CapacitorModel \<Rightarrow> price_impact" where
  "getPriceImpact c =
     (let status = getChargeStatus c in
      if status = ''high_charge'' then
        (let increase_amount = (charge c - balanceThreshold c) * 0.2 in
         \<lparr> pi_type = ''increase'',
           pi_multiplier = toFixed 3 (1 + increase_amount),
           pi_reason = ''high_activity_detected'',
           pi_description = ''prices_increase_slightly'' \<rparr>)
      else if status = ''low_charge'' then
        (let decrease_amount = ((1 - balanceThreshold c) - charge c) * 0.2 in
         \<lparr> pi_type = ''decrease'',
           pi_multiplier = toFixed 3 (1 - decrease_amount),
           pi_reason = ''low_activity_detected'',
           pi_description = ''prices_decrease_slightly'' \<rparr>)
      else
        \<lparr> pi_type = ''stable'',
          pi_multiplier = 1,
          pi_reason = ''balanced_activity'',
          pi_description = ''fair_stable_pricing'' \<rparr>)"

record charge_report =
  cr_level :: real
  cr_amount :: real
  cr_charge :: real
  cr_status :: string
  cr_price_impact :: price_impact

text \<open>
  \<open>accumulateCharge\<close> and \<open>dischargeOnPurchase\<close> return a report and leave the new
  charge in the object: the model returns the report and the updated object. In the
  report \<open>cr_level\<close> is \<open>activity_level\<close> or \<open>purchase_size\<close>, \<open>cr_amount\<close> is
  \<open>charge_increase\<close> or \<open>discharge_amount\<close>, \<open>cr_charge\<close> is \<open>current_charge\<close> or
  \<open>remaining_charge\<close>.
\<close>

definition accumulateCharge :: "real \<Rightarrow> CapacitorModel \<Rightarrow> charge_report \<times> CapacitorModel" where
  "accumulateCharge activityLevel c =
     (let chargeIncrease = activityLevel * chargeRate c;
          c' = c\<lparr>charge := min (charge c + chargeIncrease) (maxCharge c)\<rparr>
      in (\<lparr> cr_level = toFixed 2 activityLevel,
             cr_amount = toFixed 3 chargeIncrease,
             cr_charge = toFixed 3 (charge c'),
             cr_status = getChargeStatus c',
             cr_price_impact = getPriceImpact c' \<rparr>, c'))"

definition dischargeOnPurchase :: "real \<Rightarrow> CapacitorModel \<Rightarrow> charge_report \<times> CapacitorModel" where
  "dischargeOnPurchase purchaseSize c =
     (let dischargeAmount = purchaseSize * dischargeRate c;
          c' = c\<lparr>charge := max (charge c - dischargeAmount) 0\<rparr>
      in (\<lparr> cr_level = toFixed 2 purchaseSize,
             cr_amount = toFixed 3 dischargeAmount,
             cr_charge = toFixed 3 (charge c'),
             cr_status = getChargeStatus c',
             cr_price_impact = getPriceImpact c' \<rparr>, c'))"



record balance_report =
  br_target_charge :: real
  br_current_charge :: real
  br_auto_balancing :: bool
  br_status :: string

definition autoBalance :: "CapacitorModel \<Rightarrow> balance_report \<times> CapacitorModel" where
  "autoBalance c =
     (let targetCharge = 0.5;
          balanceRate = 0.02;
          c' = (if charge c > targetCharge
                then c\<lparr>charge := charge c - min (charge c - targetCharge) balanceRate\<rparr>
                else if charge c < targetCharge
                then c\<lparr>charge := charge c + min (targetCharge - charge c) balanceRate\<rparr>
                else c)
      in (\<lparr> br_target_charge = targetCharge,
             br_current_charge = toFixed 3 (charge c'),
             br_auto_balancing = True,
             br_status = ''maintaining_fair_pricing'' \<rparr>, c'))"

text \<open>A caller's sequence of mutating calls on one capacitor.\<close>

datatype capacitor_call = Accumulate real | Discharge real | AutoBalance

fun capacitor_step :: "CapacitorModel \<Rightarrow> capacitor_call \<Rightarrow> CapacitorModel" where
  "capacitor_step c (Accumulate a) = snd (accumulateCharge a c)"
| "capacitor_step c (Discharge p) = snd (dischargeOnPurchase p c)"
| "capacitor_step c AutoBalance = snd (autoBalance c)"

fun capacitor_run :: "CapacitorModel \<Rightarrow> capacitor_call list \<Rightarrow> CapacitorModel" where
  "capacitor_run c [] = c"
| "capacitor_run c (x # xs) = capacitor_run (capacitor_step c x) xs"

fun valid_call :: "capacitor_call \<Rightarrow> bool" where
  "valid_call (Accumulate a) = (0 \<le> a \<and> a \<le> 1)"
| "valid_call (Discharge p) = (0 \<le> p \<and> p \<le> 1)"
| "valid_call AutoBalance = True"

section \<open>alc-market.js\<close>





section \<open>fair-pricing.js\<close>

record FairPricing =
  priceFloor :: real
  priceCeiling :: real
  maxChangeRate :: real
  priceHistory :: "real list"
  fairnessScore :: real

definition new_FairPricing :: FairPricing where
  "new_FairPricing =
     \<lparr> priceFloor = 0.01,
       priceCeiling = 10000,
       maxChangeRate = 0.25,
       priceHistory = [],
       fairnessScore = 1.0 \<rparr>"

text \<open>
  A suggestion is one of three template strings with a number of the object spliced in;
  the model keeps the template and the number.
\<close>

datatype suggestion =
    Minimum_price_is real
  | Maximum_price_is real
  | Price_change_limited_to real

record validation =
  validated_price :: real
  original_price :: real
  is_fair :: bool
  issues :: "string list"
  suggestions :: "suggestion list"
  fairness_score :: real

text \<open>\<open>calculateFairnessScore\<close> stores the score and returns it with two decimals.\<close>

definition calculateFairnessScore :: "string list \<Rightarrow> FairPricing \<Rightarrow> real \<times> FairPricing" where
  "calculateFairnessScore iss s =
     (let penaltyPerIssue = 0.2;
          s' = s\<lparr>fairnessScore := max (1.0 - real (length iss) * penaltyPerIssue) 0\<rparr>
      in (toFixed 2 (fairnessScore s'), s'))"

text \<open>
  The three checks of \<open>validatePrice\<close> each pass on the price and the lists of issues
  and suggestions collected so far.
\<close>

type_synonym checked = "real \<times> string list \<times> suggestion list"

definition check_floor :: "FairPricing \<Rightarrow> checked \<Rightarrow> checked" where
  "check_floor s = (\<lambda>(price, iss, sug).
     if price < priceFloor s
     then (priceFloor s, iss @ [''price_too_low''], sug @ [Minimum_price_is (priceFloor s)])
     else (price, iss, sug))"

definition check_ceiling :: "FairPricing \<Rightarrow> checked \<Rightarrow> checked" where
  "check_ceiling s = (\<lambda>(price, iss, sug).
     if price > priceCeiling s
     then (priceCeiling s, iss @ [''price_too_high''], sug @ [Maximum_price_is (priceCeiling s)])
     else (price, iss, sug))"

definition check_change :: "FairPricing \<Rightarrow> checked \<Rightarrow> checked" where
  "check_change s = (\<lambda>(price, iss, sug).
     if length (priceHistory s) > 0 then
       (let lastPrice = priceHistory s ! (length (priceHistory s) - 1);
            changeRate = js_div \<bar>price - lastPrice\<bar> lastPrice
        in if js_gt changeRate (maxChangeRate s) then
             (let maxChange = lastPrice * maxChangeRate s
              in (if price > lastPrice then lastPrice + maxChange else lastPrice - maxChange,
                  iss @ [''price_change_too_rapid''],
                  sug @ [Price_change_limited_to (maxChangeRate s * 100)]))
           else (price, iss, sug))
     else (price, iss, sug))"

text \<open>\<open>push\<close> then \<open>shift\<close> when more than 100 prices are kept.\<close>

definition record_price :: "real \<Rightarrow> real list \<Rightarrow> real list" where
  "record_price price h = (let h' = h @ [price] in if length h' > 100 then tl h' else h')"

text \<open>
  The second argument is \<open>context.original_price\<close>, \<open>None\<close> when the context has none;
  \<open>context.original_price || price\<close> reads the price after the checks and also replaces
  a zero.
\<close>

definition validatePrice :: "real \<Rightarrow> real option \<Rightarrow> FairPricing \<Rightarrow> validation \<times> FairPricing" where
  "validatePrice price0 context_original_price s =
     (case check_change s (check_ceiling s (check_floor s (price0, [], []))) of
        (price, iss, sug) \<Rightarrow>
          (let s1 = s\<lparr>priceHistory := record_price price (priceHistory s)\<rparr>;
               (score, s2) = calculateFairnessScore iss s1
           in (\<lparr> validated_price = toFixed 2 price,
                  original_price =
                    (case context_original_price of
                       None \<Rightarrow> price
                     | Some p \<Rightarrow> if p = 0 then price else p),
                  is_fair = (length iss = 0),
                  issues = iss,
                  suggestions = sug,
                  fairness_score = score \<rparr>, s2)))"

text \<open>Earlier calls on one object, each with its price and context.\<close>

fun validate_run :: "FairPricing \<Rightarrow> (real \<times> real option) list \<Rightarrow> FairPricing" where
  "validate_run s [] = s"
| "validate_run s ((p, ctx) # calls) = validate_run (snd (validatePrice p ctx s)) calls"

text \<open>
  \<open>marketData\<close>: a field is \<open>None\<close> when the object does not have it, and the
  destructuring default then applies.
\<close>

record marketData =
  averagePrice :: "real option"
  medianPrice :: "real option"
  competitorPrices :: "real list option"

record market_adjusted =
  mk_original_price :: real
  mk_market_average :: jsnum
  mk_adjusted_price :: jsnum
  mk_deviation_percent :: jsnum
  mk_adjusted :: bool
  mk_reason :: string

record market_confirmed =
  mc_price :: real
  mc_market_average :: jsnum
  mc_deviation_percent :: jsnum
  mc_fair_market_confirmed :: bool
  mc_reason :: string

datatype market_check = Adjusted market_adjusted | Within_range market_confirmed

definition allPrices :: "real \<Rightarrow> marketData \<Rightarrow> real list" where
  "allPrices proposedPrice md =
     (let average = (case averagePrice md of None \<Rightarrow> proposedPrice | Some a \<Rightarrow> a);
          median = (case medianPrice md of None \<Rightarrow> proposedPrice | Some m \<Rightarrow> m);
          competitors = (case competitorPrices md of None \<Rightarrow> [] | Some cs \<Rightarrow> cs)
      in filter (\<lambda>p. p > 0) ([average, median] @ competitors))"

definition marketAverage :: "real \<Rightarrow> marketData \<Rightarrow> jsnum" where
  "marketAverage proposedPrice md =
     (let ps = allPrices proposedPrice md
      in js_div (foldl (\<lambda>sum p. sum + p) 0 ps) (real (length ps)))"

definition deviation :: "real \<Rightarrow> marketData \<Rightarrow> jsnum" where
  "deviation proposedPrice md =
     (let avg = marketAverage proposedPrice md
      in js_quot (js_abs (js_sub (Fin proposedPrice) avg)) avg)"

definition ensureFairMarket :: "real \<Rightarrow> marketData \<Rightarrow> market_check" where
  "ensureFairMarket proposedPrice md =
     (let avg = marketAverage proposedPrice md;
          dev = deviation proposedPrice md
      in if js_gt dev 0.3 then
           Adjusted
             \<lparr> mk_original_price = proposedPrice,
               mk_market_average = js_toFixed 2 avg,
               mk_adjusted_price = js_toFixed 2 avg,
               mk_deviation_percent = js_toFixed 1 (js_mul dev (Fin 100)),
               mk_adjusted = True,
               mk_reason = ''aligned_with_market_consensus'' \<rparr>
         else
           Within_range
             \<lparr> mc_price = proposedPrice,
               mc_market_average = js_toFixed 2 avg,
               mc_deviation_percent = js_toFixed 1 (js_mul dev (Fin 100)),
               mc_fair_market_confirmed = True,
               mc_reason = ''within_acceptable_market_range'' \<rparr>)"

function increases_loop :: "real list \<Rightarrow> nat \<Rightarrow> nat \<Rightarrow> nat \<Rightarrow> nat" where
  "increases_loop priceSequence i consecutiveIncreases suspiciousPatterns =
     (if i < length priceSequence then
        (let c = (if priceSequence ! i > priceSequence ! (i - 1)
                  then consecutiveIncreases + 1 else 0)
         in if c \<ge> 5 then suspiciousPatterns + 1
            else increases_loop priceSequence (i + 1) c suspiciousPatterns)
      else suspiciousPatterns)"
  by pat_completeness auto
termination
  by (relation "measure (\<lambda>(priceSequence, i, c, n). length priceSequence - i)") auto

text \<open>\<open>Math.max(...xs)\<close> and \<open>Math.min(...xs)\<close>: an infinity when there is no argument.\<close>

fun Math_max :: "real list \<Rightarrow> jsnum" where
  "Math_max [] = NegInf"
| "Math_max (x # xs) = Fin (foldl max x xs)"

fun Math_min :: "real list \<Rightarrow> jsnum" where
  "Math_min [] = PosInf"
| "Math_min (x # xs) = Fin (foldl min x xs)"

record manipulation_short =
  ms_manipulation_detected :: bool
  ms_confidence :: string

record manipulation_report =
  manipulation_detected :: bool
  suspicious_patterns :: nat
  confidence :: string
  recommendation :: string

datatype manipulation_check = Insufficient manipulation_short | Checked manipulation_report

definition detectManipulation :: "real list \<Rightarrow> manipulation_check" where
  "detectManipulation priceSequence =
     (if length priceSequence < 5 then
        Insufficient \<lparr> ms_manipulation_detected = False, ms_confidence = ''insufficient_data'' \<rparr>
      else
        (let n1 = increases_loop priceSequence 1 0 0;
             maxPrice = Math_max priceSequence;
             minPrice = Math_min priceSequence;
             vol = js_quot (js_sub maxPrice minPrice) minPrice;
             suspiciousPatterns = (if js_gt vol 0.5 then n1 + 1 else n1)
         in Checked
              \<lparr> manipulation_detected = (suspiciousPatterns > 0),
                suspicious_patterns = suspiciousPatterns,
                confidence =
                  (if suspiciousPatterns > 1 then ''high''
                   else if suspiciousPatterns > 0 then ''medium'' else ''low''),
                recommendation =
                  (if suspiciousPatterns > 0 then ''manual_review_required''
                   else ''pricing_appears_fair'') \<rparr>))"

section \<open>dynamic-pricing.js\<close>

text \<open>
  The rate tables are object literals read with \<open>table[key]\<close>. Such a read finds the
  literal's own properties first and then those every object inherits from
  \<open>Object.prototype\<close>, whose values are functions (an object for \<open>__proto__\<close>). The
  value read is a number of the table, an inherited value, or \<open>undefined\<close>.
\<close>

datatype jsval = JSNumber real | JSInherited string | JSUndefined

definition Object_prototype :: "string list" where
  "Object_prototype =
     [''constructor'', ''hasOwnProperty'', ''isPrototypeOf'', ''propertyIsEnumerable'',
      ''toLocaleString'', ''toString'', ''valueOf'', ''__proto__'',
      ''__defineGetter__'', ''__defineSetter__'', ''__lookupGetter__'', ''__lookupSetter__'']"

definition get_property :: "(string \<times> real) list \<Rightarrow> string \<Rightarrow> jsval" where
  "get_property table key =
     (case map_of table key of
        Some v \<Rightarrow> JSNumber v
      | None \<Rightarrow> if key \<in> set Object_prototype then JSInherited key else JSUndefined)"

text \<open>\<open>v || d\<close>: \<open>undefined\<close> and zero are falsy, a function or an object is truthy.\<close>

fun js_or :: "jsval \<Rightarrow> real \<Rightarrow> jsval" where
  "js_or (JSNumber v) d = (if v = 0 then JSNumber d else JSNumber v)"
| "js_or (JSInherited k) d = JSInherited k"
| "js_or JSUndefined d = JSNumber d"

text \<open>The number an operand of \<open>*\<close> is converted to: NaN for a function or an object.\<close>

fun to_number :: "jsval \<Rightarrow> jsnum" where
  "to_number (JSNumber v) = Fin v"
| "to_number (JSInherited k) = NaN"
| "to_number JSUndefined = NaN"

fun Math_round :: "jsnum \<Rightarrow> jsnum" where
  "Math_round (Fin x) = Fin (of_int \<lfloor>x + 1 / 2\<rfloor>)"
| "Math_round PosInf = PosInf"
| "Math_round NegInf = NegInf"
| "Math_round NaN = NaN"

record art_params =
  complexity :: "string option"
  timeSpent :: "real option"
  demand :: "string option"

record art_price =
  base_alc :: jsval
  time_spent_hours :: real
  complexity_level :: string
  demand_level :: string
  final_price_alc :: jsnum
  usd_estimate :: string

definition complexityRates :: "(string \<times> real) list" where
  "complexityRates = [(''low'', 5), (''medium'', 10), (''high'', 20)]"

definition demandMultipliers :: "(string \<times> real) list" where
  "demandMultipliers = [(''low'', 0.8), (''normal'', 1.0), (''high'', 1.5)]"

definition calculateArtPrice :: "art_params \<Rightarrow> art_price" where
  "calculateArtPrice params =
     (let complexity' = (case complexity params of None \<Rightarrow> ''medium'' | Some c \<Rightarrow> c);
          timeSpent' = (case timeSpent params of None \<Rightarrow> 1 | Some t \<Rightarrow> t);
          demand' = (case demand params of None \<Rightarrow> ''normal'' | Some d \<Rightarrow> d);
          baseRate = js_or (get_property complexityRates complexity') 10;
          demandFactor = js_or (get_property demandMultipliers demand') 1.0;
          price = js_mul (js_mul (to_number baseRate) (Fin timeSpent')) (to_number demandFactor)
      in \<lparr> base_alc = baseRate,
            time_spent_hours = timeSpent',
            complexity_level = complexity',
            demand_level = demand',
            final_price_alc = Math_round price,
            usd_estimate = ''(multiply by current ALC rate)'' \<rparr>)"

record token_params =
  token_type :: "string option"
  utility :: "string option"
  scarcity :: "real option"

record token_value =
  tv_token_type :: string
  utility_level :: string
  total_supply :: real
  scarcity_bonus :: real
  base_value_alc :: jsnum
  tv_market_condition :: string

definition typeMultipliers :: "(string \<times> real) list" where
  "typeMultipliers = [(''standard'', 1.0), (''premium'', 2.0), (''limited'', 3.0)]"

definition utilityRates :: "(string \<times> real) list" where
  "utilityRates = [(''low'', 5), (''medium'', 10), (''high'', 20)]"

definition calculateTokenValue :: "token_params \<Rightarrow> token_value" where
  "calculateTokenValue params =
     (let type' = (case token_type params of None \<Rightarrow> ''standard'' | Some t \<Rightarrow> t);
          utility' = (case utility params of None \<Rightarrow> ''medium'' | Some u \<Rightarrow> u);
          scarcity' = (case scarcity params of None \<Rightarrow> 1000 | Some n \<Rightarrow> n);
          baseValue = js_or (get_property utilityRates utility') 10;
          typeMultiplier = js_or (get_property typeMultipliers type') 1.0;
          scarcityBonus = (if scarcity' < 100 then 2.0 else if scarcity' < 500 then 1.5 else 1.0);
          tokenValue =
            js_mul (js_mul (to_number baseValue) (to_number typeMultiplier)) (Fin scarcityBonus)
      in \<lparr> tv_token_type = type',
            utility_level = utility',
            total_supply = scarcity',
            scarcity_bonus = scarcityBonus,
            base_value_alc = Math_round tokenValue,
            tv_market_condition = ''fair_pricing_applied'' \<rparr>)"

section \<open>Invariants and auxiliary notions\<close>

text \<open>What the mutators of the capacitor keep.\<close>

definition charge_ok :: "CapacitorModel \<Rightarrow> bool" where
  "charge_ok c \<longleftrightarrow>
     0 \<le> charge c \<and> charge c \<le> maxCharge c \<and> maxCharge c = 1
     \<and> chargeRate c = 0.05 \<and> dischargeRate c = 0.1"

text \<open>The price that \<open>validatePrice\<close> appends to the history.\<close>

definition accepted :: "real \<Rightarrow> FairPricing \<Rightarrow> real" where
  "accepted p s = fst (check_change s (check_ceiling s (check_floor s (p, [], []))))"

text \<open>What \<open>validatePrice\<close> keeps: every price of the history is within the bounds.\<close>

definition fair_inv :: "FairPricing \<Rightarrow> bool" where
  "fair_inv s \<longleftrightarrow>
     0 < priceFloor s \<and> priceFloor s \<le> priceCeiling s \<and> 0 \<le> maxChangeRate s
     \<and> (\<forall>x \<in> set (priceHistory s). priceFloor s \<le> x \<and> x \<le> priceCeiling s)"

section \<open>Capacitor charge stays within its bounds\<close>

lemma charge_ok_new: "charge_ok (new_CapacitorModel bt)"
  by (simp add: charge_ok_def new_CapacitorModel_def)

lemma accumulateCharge_state:
  "snd (accumulateCharge a c) = c\<lparr>charge := min (charge c + a * chargeRate c) (maxCharge c)\<rparr>"
  by (simp add: accumulateCharge_def Let_def)

lemma dischargeOnPurchase_state:
  "snd (dischargeOnPurchase p c) = c\<lparr>charge := max (charge c - p * dischargeRate c) 0\<rparr>"
  by (simp add: dischargeOnPurchase_def Let_def)

lemma charge_ok_accumulate:
  assumes "charge_ok c" and "0 \<le> a"
  shows "charge_ok (snd (accumulateCharge a c))"
proof -
  from assms(1) have b: "0 \<le> charge c" "charge c \<le> maxCharge c" "0 \<le> chargeRate c"
    by (simp_all add: charge_ok_def)
  from assms(2) b(3) have "0 \<le> a * chargeRate c" by simp
  with b have "0 \<le> min (charge c + a * chargeRate c) (maxCharge c)" by simp
  with assms(1) show ?thesis
    by (simp add: charge_ok_def accumulateCharge_state)
qed

lemma charge_ok_discharge:
  assumes "charge_ok c" and "0 \<le> p"
  shows "charge_ok (snd (dischargeOnPurchase p c))"
proof -
  from assms(1) have b: "0 \<le> charge c" "charge c \<le> maxCharge c" "0 \<le> dischargeRate c"
    by (simp_all add: charge_ok_def)
  from assms(2) b(3) have "0 \<le> p * dischargeRate c" by simp
  with b have "max (charge c - p * dischargeRate c) 0 \<le> maxCharge c" by simp
  with assms(1) show ?thesis
    by (simp add: charge_ok_def dischargeOnPurchase_state)
qed

lemma charge_ok_autoBalance:
  assumes "charge_ok c"
  shows "charge_ok (snd (autoBalance c))"
  using assms by (auto simp add: charge_ok_def autoBalance_def Let_def min_def)

lemma charge_ok_step:
  assumes "charge_ok c" and "valid_call x"
  shows "charge_ok (capacitor_step c x)"
  using assms
  by (cases x) (simp_all add: charge_ok_accumulate charge_ok_discharge charge_ok_autoBalance)

lemma charge_ok_run:
  assumes "charge_ok c" and "list_all valid_call xs"
  shows "charge_ok (capacitor_run c xs)"
  using assms
proof (induction xs arbitrary: c)
  case Nil
  then show ?case by simp
next
  case (Cons x xs)
  from Cons.prems have "charge_ok (capacitor_step c x)"
    by (simp add: charge_ok_step)
  with Cons show ?case by simp
qed

text \<open>
  C3. Starting from the charge 0.5 of a new capacitor, after any finite sequence of
  \<open>accumulateCharge(a)\<close> with \<open>a\<close> in [0,1], \<open>dischargeOnPurchase(p)\<close> with \<open>p\<close> in
  [0,1] and \<open>autoBalance()\<close> calls, the charge lies between 0 and \<open>maxCharge\<close>, which
  is 1.
\<close>

theorem charge_within_bounds:
  assumes "list_all valid_call calls"
  shows "charge (new_CapacitorModel bt) = 0.5
         \<and> 0 \<le> charge (capacitor_run (new_CapacitorModel bt) calls)
         \<and> charge (capacitor_run (new_CapacitorModel bt) calls)
             \<le> maxCharge (capacitor_run (new_CapacitorModel bt) calls)
         \<and> maxCharge (capacitor_run (new_CapacitorModel bt) calls) = 1"
proof -
  have "charge_ok (capacitor_run (new_CapacitorModel bt) calls)"
    using charge_ok_new assms by (rule charge_ok_run)
  then show ?thesis
    by (simp add: charge_ok_def new_CapacitorModel_def)
qed

theorem charge_within_bounds_witness:
  "list_all valid_call [Accumulate 1, Discharge 0.5, AutoBalance]
   \<and> 0 \<le> charge (capacitor_run (new_CapacitorModel None)
                    [Accumulate 1, Discharge 0.5, AutoBalance])
   \<and> charge (capacitor_run (new_CapacitorModel None)
                [Accumulate 1, Discharge 0.5, AutoBalance]) \<le> 1"
proof -
  have h: "list_all valid_call [Accumulate 1, Discharge 0.5, AutoBalance]"
    by simp
  from charge_within_bounds [OF h, of None] h show ?thesis
    by simp
qed

section \<open>Validated prices\<close>


lemma floor_ceiling_bounds:
  assumes "fair_inv s"
  shows "priceFloor s \<le> fst (check_ceiling s (check_floor s (p, [], [])))
       \<and> fst (check_ceiling s (check_floor s (p, [], []))) \<le> priceCeiling s"
  using assms by (simp add: fair_inv_def check_floor_def check_ceiling_def)

lemma check_change_fst:
  "fst (check_change s (q, iss, sug)) =
     (if priceHistory s = [] then q
      else if js_gt (js_div \<bar>q - last (priceHistory s)\<bar> (last (priceHistory s))) (maxChangeRate s)
      then (if q > last (priceHistory s)
            then last (priceHistory s) + last (priceHistory s) * maxChangeRate s
            else last (priceHistory s) - last (priceHistory s) * maxChangeRate s)
      else q)"
  by (simp add: check_change_def Let_def last_conv_nth)

lemma js_gt_div_pos:
  assumes "0 < L"
  shows "js_gt (js_div a L) r \<longleftrightarrow> L * r < a"
  using assms by (simp add: js_div_def pos_less_divide_eq mult.commute)

lemma change_bounds:
  assumes L: "lo \<le> L" "L \<le> hi" and q: "lo \<le> q" "q \<le> hi" and lo: "0 < lo" and r: "0 \<le> r"
    and big: "js_gt (js_div \<bar>q - L\<bar> L) r"
  shows "lo \<le> (if q > L then L + L * r else L - L * r)
       \<and> (if q > L then L + L * r else L - L * r) \<le> hi"
proof -
  from L lo have pos: "0 < L" by simp
  with big have gt: "L * r < \<bar>q - L\<bar>" by (simp add: js_gt_div_pos)
  from pos r have nn: "0 \<le> L * r" by simp
  show ?thesis
  proof (cases "q > L")
    case True
    with gt have "L + L * r < q" by simp
    with True nn L q show ?thesis by simp
  next
    case False
    with gt have "q < L - L * r" by simp
    with False nn L q show ?thesis by simp
  qed
qed

lemma accepted_bounds:
  assumes "fair_inv s"
  shows "priceFloor s \<le> accepted p s \<and> accepted p s \<le> priceCeiling s"
proof -
  obtain q iss sug where c: "check_ceiling s (check_floor s (p, [], [])) = (q, iss, sug)"
    by (cases "check_ceiling s (check_floor s (p, [], []))") auto
  with floor_ceiling_bounds [OF assms, of p]
  have q: "priceFloor s \<le> q" "q \<le> priceCeiling s" by simp_all
  from assms have lo: "0 < priceFloor s" and r: "0 \<le> maxChangeRate s"
    by (simp_all add: fair_inv_def)
  show ?thesis
  proof (cases "priceHistory s = []")
    case True
    with q c show ?thesis by (simp add: accepted_def check_change_fst)
  next
    case False
    then have "last (priceHistory s) \<in> set (priceHistory s)" by simp
    with assms have L: "priceFloor s \<le> last (priceHistory s)"
      "last (priceHistory s) \<le> priceCeiling s"
      by (simp_all add: fair_inv_def)
    show ?thesis
    proof (cases "js_gt (js_div \<bar>q - last (priceHistory s)\<bar> (last (priceHistory s)))
                   (maxChangeRate s)")
      case True
      from change_bounds [OF L q lo r True] c False True show ?thesis
        by (simp add: accepted_def check_change_fst)
    next
      case big: False
      with q c False show ?thesis by (simp add: accepted_def check_change_fst)
    qed
  qed
qed


lemma validatePrice_snd:
  "priceHistory (snd (validatePrice p ctx s)) = record_price (accepted p s) (priceHistory s)
   \<and> priceFloor (snd (validatePrice p ctx s)) = priceFloor s
   \<and> priceCeiling (snd (validatePrice p ctx s)) = priceCeiling s
   \<and> maxChangeRate (snd (validatePrice p ctx s)) = maxChangeRate s"
  by (simp add: validatePrice_def accepted_def calculateFairnessScore_def Let_def
      split: prod.splits)

lemma set_record_price: "set (record_price x h) \<subseteq> insert x (set h)"
  by (cases h) (auto simp: record_price_def Let_def)

lemma fair_inv_validatePrice:
  assumes "fair_inv s"
  shows "fair_inv (snd (validatePrice p ctx s))"
proof -
  from accepted_bounds [OF assms, of p] set_record_price [of "accepted p s" "priceHistory s"] assms
  show ?thesis
    by (auto simp: fair_inv_def validatePrice_snd)
qed

lemma fair_inv_run:
  assumes "fair_inv s"
  shows "fair_inv (validate_run s calls)"
  using assms
  by (induction s calls rule: validate_run.induct) (simp_all add: fair_inv_validatePrice)

lemma fair_inv_new: "fair_inv new_FairPricing"
  by (simp add: fair_inv_def new_FairPricing_def)







lemma toFixed2_scores:
  "toFixed 2 1 = 1" "toFixed 2 (4 / 5) = 4 / 5" "toFixed 2 (3 / 5) = 3 / 5"
  by (simp_all add: toFixed_def)

lemma issues_cases:
  assumes "fair_inv s"
  shows "issues (fst (validatePrice p ctx s)) \<in>
           {[], [''price_too_low''], [''price_too_high''], [''price_change_too_rapid''],
            [''price_too_low'', ''price_change_too_rapid''],
            [''price_too_high'', ''price_change_too_rapid'']}"
  using assms
  by (auto simp: validatePrice_def check_floor_def check_ceiling_def check_change_def
      calculateFairnessScore_def fair_inv_def Let_def split: prod.splits if_splits)

lemma fairness_score_eq:
  "fairness_score (fst (validatePrice p ctx s))
     = toFixed 2 (max (1 - real (length (issues (fst (validatePrice p ctx s)))) * (1 / 5)) 0)"
  by (simp add: validatePrice_def calculateFairnessScore_def Let_def split: prod.splits)

text \<open>
  C9. In every call to \<open>validatePrice\<close> the list of issues has at most two entries,
  \<open>price_too_low\<close> and \<open>price_too_high\<close> never occur together, and the returned
  \<open>fairness_score\<close> is at least 0.6.
\<close>

theorem at_most_two_issues:
  "length (issues (fst (validatePrice price ctx (validate_run new_FairPricing calls)))) \<le> 2
   \<and> \<not> (''price_too_low'' \<in> set (issues (fst (validatePrice price ctx
                                     (validate_run new_FairPricing calls))))
        \<and> ''price_too_high'' \<in> set (issues (fst (validatePrice price ctx
                                     (validate_run new_FairPricing calls)))))
   \<and> 0.6 \<le> fairness_score (fst (validatePrice price ctx (validate_run new_FairPricing calls)))"
proof -
  let ?v = "fst (validatePrice price ctx (validate_run new_FairPricing calls))"
  have inv: "fair_inv (validate_run new_FairPricing calls)"
    using fair_inv_new by (rule fair_inv_run)
  from issues_cases [OF inv, of price ctx]
  consider "issues ?v = []" | "issues ?v = [''price_too_low'']"
    | "issues ?v = [''price_too_high'']" | "issues ?v = [''price_change_too_rapid'']"
    | "issues ?v = [''price_too_low'', ''price_change_too_rapid'']"
    | "issues ?v = [''price_too_high'', ''price_change_too_rapid'']"
    by auto
  then show ?thesis
    by cases (simp_all add: fairness_score_eq [of price ctx] toFixed2_scores)
qed

section \<open>Market value adjustment\<close>





section \<open>Capacitor price multiplier\<close>




section \<open>Market consensus\<close>









text \<open>
  C10. If \<open>averagePrice\<close>, \<open>medianPrice\<close> (each after its default) and every element
  of \<open>competitorPrices\<close> are non-positive, \<open>ensureFairMarket\<close> filters out every
  candidate, the market average 0 / 0 and the deviation are NaN, the comparison with 0.3
  is false, and the function returns the proposed price unchanged in the
  \<open>within_acceptable_market_range\<close> report, whose average and deviation are NaN; no
  error is signalled.
\<close>

theorem ensureFairMarket_no_positive:
  assumes "(case averagePrice md of None \<Rightarrow> p | Some a \<Rightarrow> a) \<le> 0"
    and "(case medianPrice md of None \<Rightarrow> p | Some a \<Rightarrow> a) \<le> 0"
    and "\<forall>c \<in> set (case competitorPrices md of None \<Rightarrow> [] | Some cs \<Rightarrow> cs). c \<le> 0"
  shows "allPrices p md = []
       \<and> marketAverage p md = NaN
       \<and> deviation p md = NaN
       \<and> ensureFairMarket p md =
            Within_range \<lparr> mc_price = p,
                           mc_market_average = NaN,
                           mc_deviation_percent = NaN,
                           mc_fair_market_confirmed = True,
                           mc_reason = ''within_acceptable_market_range'' \<rparr>"
proof -
  from assms have e: "allPrices p md = []"
    by (auto simp: allPrices_def Let_def filter_empty_conv not_less)
  then have avg: "marketAverage p md = NaN"
    by (simp add: marketAverage_def Let_def js_div_def)
  then have dev: "deviation p md = NaN"
    by (simp add: deviation_def Let_def)
  from e avg dev show ?thesis
    by (simp add: ensureFairMarket_def Let_def)
qed

theorem ensureFairMarket_no_positive_witness:
  "ensureFairMarket 5 \<lparr>averagePrice = Some 0, medianPrice = Some (- 1),
                          competitorPrices = Some [0, - 2]\<rparr>
     = Within_range \<lparr> mc_price = 5,
                      mc_market_average = NaN,
                      mc_deviation_percent = NaN,
                      mc_fair_market_confirmed = True,
                      mc_reason = ''within_acceptable_market_range'' \<rparr>"
  using ensureFairMarket_no_positive [where p = 5 and md = "\<lparr>averagePrice = Some 0,
                          medianPrice = Some (- 1), competitorPrices = Some [0, - 2]\<rparr>"]
  by simp

section \<open>Manipulation detection\<close>

lemma increases_loop_unfold:
  "increases_loop xs i c n =
     (if i < length xs then
        (if 5 \<le> (if xs ! i > xs ! (i - 1) then c + 1 else 0) then n + 1
         else increases_loop xs (i + 1) (if xs ! i > xs ! (i - 1) then c + 1 else 0) n)
      else n)"
  by (subst increases_loop.simps) (simp add: Let_def)

lemma increases_loop_run:
  assumes "1 \<le> i" and "c < 5" and "j + 5 < length xs"
    and "\<forall>k<5. xs ! (j + k) < xs ! (j + k + 1)"
    and "i - 1 - j \<le> c"
  shows "increases_loop xs i c n = n + 1"
  using assms
proof (induction xs i c n rule: increases_loop.induct)
  case (1 xs i c n)
  let ?c = "if xs ! i > xs ! (i - 1) then c + 1 else 0"
  from "1.prems" have i_lt: "i < length xs" by linarith
  have inc: "xs ! (i - 1) < xs ! i" if "j < i"
  proof -
    from that "1.prems" have k: "i - 1 - j < 5" and e: "j + (i - 1 - j) = i - 1" by linarith+
    from "1.prems"(4) k have "xs ! (j + (i - 1 - j)) < xs ! (j + (i - 1 - j) + 1)" by blast
    with e "1.prems"(1) show ?thesis by simp
  qed
  show ?case
  proof (cases "5 \<le> ?c")
    case True
    with i_lt show ?thesis by (subst increases_loop_unfold) simp
  next
    case False
    have step: "i + 1 - 1 - j \<le> ?c"
    proof (cases "j < i")
      case True
      with inc "1.prems" show ?thesis by simp
    next
      case False
      then show ?thesis by simp
    qed
    from False have lt: "?c < 5" by simp
    have "increases_loop xs (i + 1) ?c n = n + 1"
      using i_lt refl False _ lt "1.prems"(3) "1.prems"(4) step
      by (rule "1.IH") simp
    with i_lt False show ?thesis by (subst increases_loop_unfold) simp
  qed
qed

text \<open>
  C6. For every price sequence of length at least 5 that contains a run of 5 consecutive
  strict increases (six prices from some position \<open>j\<close> on, each above the one before;
  a longer run contains such a run), \<open>detectManipulation\<close> reports the monotonic-run
  pattern: the loop over the increases adds one pattern, \<open>suspicious_patterns\<close> is at
  least 1 and \<open>manipulation_detected\<close> is true. The witness is
  \<open>detectManipulation([1,2,3,4,5,6])\<close>.
\<close>

theorem monotonic_run_detected:
  assumes "5 \<le> length priceSequence"
    and "j + 5 < length priceSequence"
    and "\<forall>k<5. priceSequence ! (j + k) < priceSequence ! (j + k + 1)"
  shows "increases_loop priceSequence 1 0 0 = 1
       \<and> (\<exists>r. detectManipulation priceSequence = Checked r
              \<and> 1 \<le> suspicious_patterns r \<and> manipulation_detected r)"
proof -
  have run: "increases_loop priceSequence 1 0 0 = 0 + 1"
    using _ _ assms(2) assms(3) by (rule increases_loop_run) simp_all
  with assms(1) show ?thesis
    by (simp add: detectManipulation_def Let_def)
qed

theorem monotonic_run_detected_witness:
  "detectManipulation [1, 2, 3, 4, 5, 6]
     = Checked \<lparr> manipulation_detected = True,
                 suspicious_patterns = 2,
                 confidence = ''high'',
                 recommendation = ''manual_review_required'' \<rparr>
   \<and> increases_loop [1, 2, 3, 4, 5, 6] 1 0 0 = 1"
proof -
  have l: "5 \<le> length [1, 2, 3, 4, 5, 6 :: real]" "0 + 5 < length [1, 2, 3, 4, 5, 6 :: real]"
    by simp_all
  have r: "\<forall>k<5. [1, 2, 3, 4, 5, 6 :: real] ! (0 + k) < [1, 2, 3, 4, 5, 6] ! (0 + k + 1)"
    by (simp add: numeral_eq_Suc less_Suc_eq all_conj_distrib)
  have v: "js_gt (js_quot (js_sub (Math_max [1, 2, 3, 4, 5, 6]) (Math_min [1, 2, 3, 4, 5, 6]))
                   (Math_min [1, 2, 3, 4, 5, 6])) 0.5"
    by (simp add: js_div_def)
  from monotonic_run_detected [OF l r] v show ?thesis
    by (simp add: detectManipulation_def Let_def)
qed

section \<open>Categorical fallback\<close>

text \<open>
  A key that is neither in the table nor a property name of \<open>Object.prototype\<close> reads
  as \<open>undefined\<close> and takes the default.
\<close>

lemma get_property_unknown:
  assumes "key \<notin> fst ` set table" and "key \<notin> set Object_prototype"
  shows "js_or (get_property table key) d = JSNumber d"
proof -
  from assms(1) have "map_of table key = None" by (simp add: map_of_eq_None_iff)
  with assms(2) show ?thesis by (simp add: get_property_def)
qed

lemma unknown_category_default:
  assumes "c \<notin> {''low'', ''medium'', ''high''}" and "c \<notin> set Object_prototype"
    and "d \<notin> {''low'', ''normal'', ''high''}" and "d \<notin> set Object_prototype"
  shows "final_price_alc (calculateArtPrice \<lparr>complexity = Some c, timeSpent = t, demand = Some d\<rparr>)
       = final_price_alc (calculateArtPrice
           \<lparr>complexity = Some ''medium'', timeSpent = t, demand = Some ''normal''\<rparr>)"
proof -
  from assms(1,2) have "js_or (get_property complexityRates c) 10 = JSNumber 10"
    by (intro get_property_unknown) (simp_all add: complexityRates_def)
  moreover from assms(3,4) have "js_or (get_property demandMultipliers d) 1.0 = JSNumber 1.0"
    by (intro get_property_unknown) (simp_all add: demandMultipliers_def)
  moreover have "js_or (get_property complexityRates ''medium'') 10 = JSNumber 10"
    by (simp add: get_property_def complexityRates_def)
  moreover have "js_or (get_property demandMultipliers ''normal'') 1.0 = JSNumber 1.0"
    by (simp add: get_property_def demandMultipliers_def)
  ultimately show ?thesis
    by (simp add: calculateArtPrice_def Let_def)
qed

lemma unknown_token_default:
  assumes "ty \<notin> {''standard'', ''premium'', ''limited''}" and "ty \<notin> set Object_prototype"
    and "u \<notin> {''low'', ''medium'', ''high''}" and "u \<notin> set Object_prototype"
  shows "base_value_alc (calculateTokenValue \<lparr>token_type = Some ty, utility = Some u, scarcity = n\<rparr>)
       = base_value_alc (calculateTokenValue
           \<lparr>token_type = Some ''standard'', utility = Some ''medium'', scarcity = n\<rparr>)"
proof -
  from assms(1,2) have "js_or (get_property typeMultipliers ty) 1.0 = JSNumber 1.0"
    by (intro get_property_unknown) (simp_all add: typeMultipliers_def)
  moreover from assms(3,4) have "js_or (get_property utilityRates u) 10 = JSNumber 10"
    by (intro get_property_unknown) (simp_all add: utilityRates_def)
  moreover have "js_or (get_property typeMultipliers ''standard'') 1.0 = JSNumber 1.0"
    by (simp add: get_property_def typeMultipliers_def)
  moreover have "js_or (get_property utilityRates ''medium'') 10 = JSNumber 10"
    by (simp add: get_property_def utilityRates_def)
  ultimately show ?thesis
    by (simp add: calculateTokenValue_def Let_def)
qed

text \<open>
  C8 says that every categorical string outside the documented enumeration gives the
  result of the default category. The code reads the tables with \<open>table[key] || default\<close>,
  and for a key that names a property of \<open>Object.prototype\<close> the read finds the
  inherited function: for the complexity \<open>constructor\<close> the base rate is that function
  and the final price is NaN, where the complexity \<open>medium\<close> gives the rate 10 and the
  price 30; likewise for the demand \<open>toString\<close>, the token type \<open>valueOf\<close> and the
  utility \<open>constructor\<close>.
\<close>

theorem inherited_key_not_default:
  "calculateArtPrice \<lparr>complexity = Some ''constructor'', timeSpent = Some 3,
                       demand = Some ''normal''\<rparr>
     = \<lparr> base_alc = JSInherited ''constructor'',
         time_spent_hours = 3,
         complexity_level = ''constructor'',
         demand_level = ''normal'',
         final_price_alc = NaN,
         usd_estimate = ''(multiply by current ALC rate)'' \<rparr>
   \<and> calculateArtPrice \<lparr>complexity = Some ''medium'', timeSpent = Some 3,
                         demand = Some ''normal''\<rparr>
     = \<lparr> base_alc = JSNumber 10,
         time_spent_hours = 3,
         complexity_level = ''medium'',
         demand_level = ''normal'',
         final_price_alc = Fin 30,
         usd_estimate = ''(multiply by current ALC rate)'' \<rparr>
   \<and> final_price_alc (calculateArtPrice \<lparr>complexity = Some ''medium'', timeSpent = Some 3,
                         demand = Some ''toString''\<rparr>) = NaN
   \<and> base_value_alc (calculateTokenValue \<lparr>token_type = Some ''valueOf'', utility = Some ''medium'',
                         scarcity = Some 1000\<rparr>) = NaN
   \<and> base_value_alc (calculateTokenValue \<lparr>token_type = Some ''standard'', utility = Some ''constructor'',
                         scarcity = Some 1000\<rparr>) = NaN
   \<and> base_value_alc (calculateTokenValue \<lparr>token_type = Some ''standard'', utility = Some ''medium'',
                         scarcity = Some 1000\<rparr>) = Fin 10"
  by (simp add: calculateArtPrice_def calculateTokenValue_def get_property_def
      complexityRates_def demandMultipliers_def typeMultipliers_def utilityRates_def
      Object_prototype_def Let_def)

end
